theory Spec2Isabelle
  imports Complex_Main "HOL-Library.Multiset"
begin

section \<open>Route composition in ItineraryPlanner.tsx\<close>

text \<open>
  The development embeds the two algorithmic functions of the component
  \<^verbatim>\<open>ItineraryPlanner\<close> (file \<^verbatim>\<open>src/components/ItineraryPlanner.tsx\<close>): the greedy
  reordering inside \<^verbatim>\<open>optimizeRoute\<close> (lines 109-139) and the route synthesis
  \<^verbatim>\<open>generateRoute\<close> (lines 188-260), with the helper \<^verbatim>\<open>calculateDistance\<close>
  (lines 262-272).
\<close>

subsection \<open>Numbers\<close>

text \<open>
  A JavaScript \<^verbatim>\<open>number\<close> is an IEEE-754 double: \<^verbatim>\<open>NaN\<close>, or a value. A value is
  represented by the real number it denotes. The two infinities are not represented: in
  the embedded code they can only come from an overflow, beyond \<^verbatim>\<open>1e308\<close>.

  Comparisons are exact on doubles, and false as soon as one side is \<^verbatim>\<open>NaN\<close>.
\<close>

datatype number = NaN | Num real

fun js_less :: "number \<Rightarrow> number \<Rightarrow> bool" where
  "js_less (Num x) (Num y) = (x < y)"
| "js_less _ _ = False"

fun js_le :: "number \<Rightarrow> number \<Rightarrow> bool" where
  "js_le (Num x) (Num y) = (x \<le> y)"
| "js_le _ _ = False"

text \<open>
  \<^verbatim>\<open>Math.floor\<close>, \<^verbatim>\<open>Math.max\<close> and \<^verbatim>\<open>Math.round\<close> (nearest integer, ties towards plus
  infinity) are exact too; each is \<^verbatim>\<open>NaN\<close> on \<^verbatim>\<open>NaN\<close>. \<^verbatim>\<open>toFixed1\<close> is
  \<^verbatim>\<open>parseFloat(x.toFixed(1))\<close>: the nearest multiple of one tenth, ties away from zero;
  the last rounding, of that decimal to a double, is not represented.
\<close>

fun Math_floor :: "number \<Rightarrow> number" where
  "Math_floor (Num x) = Num (of_int \<lfloor>x\<rfloor>)"
| "Math_floor NaN = NaN"

fun Math_max :: "number \<Rightarrow> number \<Rightarrow> number" where
  "Math_max (Num x) (Num y) = Num (max x y)"
| "Math_max _ _ = NaN"

fun Math_round :: "number \<Rightarrow> number" where
  "Math_round (Num x) = Num (of_int \<lfloor>x + 1 / 2\<rfloor>)"
| "Math_round NaN = NaN"

fun toFixed1 :: "number \<Rightarrow> number" where
  "toFixed1 (Num x) =
     (if x < 0 then Num (- (of_int \<lfloor>(- x) * 10 + 1 / 2\<rfloor> / 10))
      else Num (of_int \<lfloor>x * 10 + 1 / 2\<rfloor> / 10))"
| "toFixed1 NaN = NaN"

text \<open>
  The arithmetic operations round their exact result to a double, and \<^verbatim>\<open>Math.sin\<close>,
  \<^verbatim>\<open>Math.cos\<close> and \<^verbatim>\<open>Math.atan2\<close> are approximations that the language leaves to the
  implementation. What they return on values is therefore a parameter of the embedding,
  the record \<open>Arith\<close>; a result may be \<^verbatim>\<open>NaN\<close> (the square root of a negative value).
  Every theorem below that has a variable \<open>fp\<close> holds for every such arithmetic, that of
  the doubles included.
\<close>

record Arith =
  round_add :: "real \<Rightarrow> real \<Rightarrow> number"
  round_sub :: "real \<Rightarrow> real \<Rightarrow> number"
  round_mul :: "real \<Rightarrow> real \<Rightarrow> number"
  round_div :: "real \<Rightarrow> real \<Rightarrow> number"
  approx_sin :: "real \<Rightarrow> number"
  approx_cos :: "real \<Rightarrow> number"
  round_sqrt :: "real \<Rightarrow> number"
  approx_atan2 :: "real \<Rightarrow> real \<Rightarrow> number"
  Math_PI :: number

text \<open>An operation with an operand \<^verbatim>\<open>NaN\<close> is \<^verbatim>\<open>NaN\<close>.\<close>

fun lift1 :: "(real \<Rightarrow> number) \<Rightarrow> number \<Rightarrow> number" where
  "lift1 f (Num x) = f x"
| "lift1 f NaN = NaN"

fun lift2 :: "(real \<Rightarrow> real \<Rightarrow> number) \<Rightarrow> number \<Rightarrow> number \<Rightarrow> number" where
  "lift2 f (Num x) (Num y) = f x y"
| "lift2 f _ _ = NaN"

definition js_add :: "Arith \<Rightarrow> number \<Rightarrow> number \<Rightarrow> number" where
  "js_add fp = lift2 (round_add fp)"

definition js_sub :: "Arith \<Rightarrow> number \<Rightarrow> number \<Rightarrow> number" where
  "js_sub fp = lift2 (round_sub fp)"

definition js_mul :: "Arith \<Rightarrow> number \<Rightarrow> number \<Rightarrow> number" where
  "js_mul fp = lift2 (round_mul fp)"

definition js_div :: "Arith \<Rightarrow> number \<Rightarrow> number \<Rightarrow> number" where
  "js_div fp = lift2 (round_div fp)"

definition Math_sin :: "Arith \<Rightarrow> number \<Rightarrow> number" where
  "Math_sin fp = lift1 (approx_sin fp)"

definition Math_cos :: "Arith \<Rightarrow> number \<Rightarrow> number" where
  "Math_cos fp = lift1 (approx_cos fp)"

definition Math_sqrt :: "Arith \<Rightarrow> number \<Rightarrow> number" where
  "Math_sqrt fp = lift1 (round_sqrt fp)"

definition Math_atan2 :: "Arith \<Rightarrow> number \<Rightarrow> number \<Rightarrow> number" where
  "Math_atan2 fp = lift2 (approx_atan2 fp)"

subsection \<open>Data model (lines 6-34)\<close>

text \<open>
  \<^verbatim>\<open>Place.location\<close> is an anonymous object type \<^verbatim>\<open>{lat: number; lon: number}\<close>. The
  optional fields of \<^verbatim>\<open>Place\<close> (\<^verbatim>\<open>description\<close>, \<^verbatim>\<open>distance\<close>, \<^verbatim>\<open>category\<close>,
  \<^verbatim>\<open>image\<close>) are read by none of the embedded functions and are left to the extension
  slot of the record.
\<close>

record Location =
  lat :: number
  lon :: number

record Place =
  id :: string
  name :: string
  location :: Location

type_synonym coord = "number \<times> number"

record RouteStep =
  instruction :: string
  distance :: number
  duration :: number
  startLocation :: coord
  endLocation :: coord
  fromPlace :: "string option"
  toPlace :: "string option"

subsection \<open>Run-time errors and dynamically typed receivers\<close>

text \<open>
  The only exception the embedded code can raise is a \<^verbatim>\<open>TypeError\<close>: a property read on
  \<^verbatim>\<open>undefined\<close>, or a call of a property that is not a function.
\<close>

datatype js_error = TypeError

text \<open>
  Inside \<^verbatim>\<open>generateRoute\<close> the identifier \<^verbatim>\<open>steps\<close> is bound twice: to an array of
  \<^verbatim>\<open>RouteStep\<close> (line 193) and, in the block of the \<^verbatim>\<open>for\<close> loop, to a number
  (line 225). \<^verbatim>\<open>js_value\<close> holds the two kinds of value, and \<^verbatim>\<open>push\<close> is the method call
  \<^verbatim>\<open>v.push(x)\<close>: on an array it appends; a number, \<^verbatim>\<open>NaN\<close> included, has no property
  \<^verbatim>\<open>push\<close>, so the call raises \<^verbatim>\<open>TypeError\<close>.
\<close>

datatype js_value = Array "RouteStep list" | Number number

fun push :: "js_value \<Rightarrow> RouteStep \<Rightarrow> js_error + js_value" where
  "push (Array xs) x = Inr (Array (xs @ [x]))"
| "push (Number n) x = Inl TypeError"

text \<open>
  \<^verbatim>\<open>xs[i]\<close> is \<^verbatim>\<open>undefined\<close> (here \<open>None\<close>) out of range.
  \<^verbatim>\<open>xs.filter((_, idx) => p(_, idx))\<close> keeps, in order, the elements whose index
  satisfies the predicate.
\<close>

definition js_index :: "'a list \<Rightarrow> nat \<Rightarrow> 'a option" where
  "js_index xs i = (if i < length xs then Some (xs ! i) else None)"

definition js_filter :: "('a \<Rightarrow> nat \<Rightarrow> bool) \<Rightarrow> 'a list \<Rightarrow> 'a list" where
  "js_filter p xs = map fst (filter (\<lambda>(x, idx). p x idx) (zip xs [0..<length xs]))"

subsection \<open>The library\<close>

text \<open>
  The package \<^verbatim>\<open>@turf/turf\<close> is not part of the repository. Its two functions used by
  \<^verbatim>\<open>generateRoute\<close> are parameters of the embedding: \<^verbatim>\<open>turf.length(line, {units:
  'kilometers'})\<close>, a number that may be \<^verbatim>\<open>NaN\<close>, and \<^verbatim>\<open>turf.along(line, d, {units:
  'kilometers'}).geometry.coordinates\<close>. A line string (\<^verbatim>\<open>turf.lineString\<close>) is the list
  of its coordinates.
\<close>

record Turf =
  turf_length :: "coord list \<Rightarrow> number"
  turf_along :: "coord list \<Rightarrow> number \<Rightarrow> coord"

subsection \<open>calculateDistance (lines 262-272)\<close>

definition calculateDistance :: "Arith \<Rightarrow> number \<Rightarrow> number \<Rightarrow> number \<Rightarrow> number \<Rightarrow> number" where
  "calculateDistance fp lat1 lon1 lat2 lon2 =
     (let R = Num 6371;
          dLat = js_div fp (js_mul fp (js_sub fp lat2 lat1) (Math_PI fp)) (Num 180);
          dLon = js_div fp (js_mul fp (js_sub fp lon2 lon1) (Math_PI fp)) (Num 180);
          a = js_add fp
                (js_mul fp (Math_sin fp (js_div fp dLat (Num 2)))
                           (Math_sin fp (js_div fp dLat (Num 2))))
                (js_mul fp
                   (js_mul fp
                      (js_mul fp (Math_cos fp (js_div fp (js_mul fp lat1 (Math_PI fp)) (Num 180)))
                                 (Math_cos fp (js_div fp (js_mul fp lat2 (Math_PI fp)) (Num 180))))
                      (Math_sin fp (js_div fp dLon (Num 2))))
                   (Math_sin fp (js_div fp dLon (Num 2))));
          c = js_mul fp (Num 2)
                (Math_atan2 fp (Math_sqrt fp a) (Math_sqrt fp (js_sub fp (Num 1) a)))
      in js_mul fp R c)"

subsection \<open>generateRoute (lines 188-260)\<close>

text \<open>Lines 213-215: the speed in km/h, 40 unless the mode is one of two strings.\<close>

definition generateRoute_speed :: "string \<Rightarrow> number" where
  "generateRoute_speed mode =
     (let speed = Num 40;
          speed = (if mode = ''cycling-regular'' then Num 15 else speed);
          speed = (if mode = ''foot-walking'' then Num 5 else speed)
      in speed)"

text \<open>
  Line 217: the duration of a leg in minutes, from its \<^verbatim>\<open>distance\<close> in kilometres
  (\<open>distance_km\<close> here) and the speed.
\<close>

definition generateRoute_duration :: "Arith \<Rightarrow> number \<Rightarrow> string \<Rightarrow> number" where
  "generateRoute_duration fp distance_km mode =
     js_mul fp (js_div fp distance_km (generateRoute_speed mode)) (Num 60)"

text \<open>
  Lines 228-232: the loop \<^verbatim>\<open>for (let j = 0; j <= steps; j++)\<close>, from the counter \<open>j\<close>,
  on the array \<^verbatim>\<open>segmentCoordinates\<close>. The counter takes the values 0, 1, 2, ...,
  which are exact. When \<^verbatim>\<open>steps\<close> is \<^verbatim>\<open>NaN\<close> the test \<^verbatim>\<open>j <= steps\<close> is false at once.
\<close>

function generateRoute_samples ::
  "Arith \<Rightarrow> Turf \<Rightarrow> coord list \<Rightarrow> number \<Rightarrow> number \<Rightarrow> nat \<Rightarrow> coord list \<Rightarrow> coord list" where
  "generateRoute_samples fp turf line lineDistance steps j segmentCoordinates =
     (if js_le (Num (real j)) steps then
        (let segment = js_div fp (Num (real j)) steps;
             point = turf_along turf line (js_mul fp lineDistance segment)
         in generateRoute_samples fp turf line lineDistance steps (j + 1)
              (segmentCoordinates @ [point]))
      else segmentCoordinates)"
  by pat_completeness auto
termination
proof (relation "measure (\<lambda>(fp, turf, line, lineDistance, steps, j, segmentCoordinates).
    case steps of NaN \<Rightarrow> 0 | Num s \<Rightarrow> nat (\<lfloor>s\<rfloor> + 1) - j)")
  show "wf (measure (\<lambda>(fp, turf, line, lineDistance, steps, j, segmentCoordinates).
    case steps of NaN \<Rightarrow> 0 | Num s \<Rightarrow> nat (\<lfloor>s\<rfloor> + 1) - j))"
    by simp
next
  fix fp :: Arith and turf :: Turf and line :: "coord list" and lineDistance steps :: number
    and j :: nat and segmentCoordinates :: "coord list" and x xa
  assume "js_le (Num (real j)) steps"
  then obtain s where s: "steps = Num s" and le: "real j \<le> s"
    by (cases steps) auto
  from le have "int j \<le> \<lfloor>s\<rfloor>" by (simp add: le_floor_iff)
  then show "((fp, turf, line, lineDistance, steps, j + 1, segmentCoordinates @ [xa]),
              fp, turf, line, lineDistance, steps, j, segmentCoordinates)
     \<in> measure (\<lambda>(fp, turf, line, lineDistance, steps, j, segmentCoordinates).
          case steps of NaN \<Rightarrow> 0 | Num s \<Rightarrow> nat (\<lfloor>s\<rfloor> + 1) - j)"
    by (simp add: s)
qed

declare generateRoute_samples.simps [simp del]

text \<open>
  Lines 223-232: the sampled points of one leg. The result is the pair of the inner
  \<^verbatim>\<open>steps\<close> (a number) and \<^verbatim>\<open>segmentCoordinates\<close>.
\<close>

definition generateRoute_segment :: "Arith \<Rightarrow> Turf \<Rightarrow> coord \<Rightarrow> coord \<Rightarrow> number \<times> coord list" where
  "generateRoute_segment fp turf fromCoord toCoord =
     (let line = [fromCoord, toCoord];
          lineDistance = turf_length turf line;
          steps = Math_max (Num 5) (Math_floor (js_div fp lineDistance (Num 0.5)));
          segmentCoordinates = generateRoute_samples fp turf line lineDistance steps 0 []
      in (steps, segmentCoordinates))"

text \<open>
  Lines 199-251: one iteration of the loop, for an index \<open>i\<close> with \<open>i + 1 < length points\<close>.
  The identifier \<^verbatim>\<open>steps\<close> in \<^verbatim>\<open>steps.push(...)\<close> (line 243) is in the scope of the
  declaration of line 225, so the receiver is the number. The outer array \<^verbatim>\<open>steps\<close> is not
  visible in the body, which therefore works on \<^verbatim>\<open>coordinates\<close>, \<^verbatim>\<open>totalDistance\<close> and
  \<^verbatim>\<open>totalDuration\<close> only. \<^verbatim>\<open>slice(1)\<close> is \<^const>\<open>tl\<close>.
\<close>

definition generateRoute_body ::
  "Arith \<Rightarrow> Turf \<Rightarrow> Place list \<Rightarrow> string \<Rightarrow> nat \<Rightarrow> coord list \<times> number \<times> number
     \<Rightarrow> js_error + coord list \<times> number \<times> number" where
  "generateRoute_body fp turf points mode i vars =
     (case vars of (coordinates, totalDistance, totalDuration) \<Rightarrow>
      let from = points ! i;
          to = points ! (i + 1);
          fromCoord = (lon (location from), lat (location from));
          toCoord = (lon (location to), lat (location to));
          distance = calculateDistance fp (lat (location from)) (lon (location from))
                       (lat (location to)) (lon (location to));
          duration = generateRoute_duration fp distance mode;
          totalDistance = js_add fp totalDistance distance;
          totalDuration = js_add fp totalDuration duration;
          (steps, segmentCoordinates) = generateRoute_segment fp turf fromCoord toCoord;
          coordinates = (if i = 0 then coordinates @ segmentCoordinates
                         else coordinates @ tl segmentCoordinates)
      in (case push (Number steps)
                 \<lparr> instruction = ''Head to '' @ name to,
                   distance = Math_round (js_mul fp distance (Num 1000)),
                   duration = Math_round duration,
                   startLocation = (lat (location from), lon (location from)),
                   endLocation = (lat (location to), lon (location to)),
                   fromPlace = Some (name from),
                   toPlace = Some (name to) \<rparr> of
            Inl e \<Rightarrow> Inl e
          | Inr _ \<Rightarrow> Inr (coordinates, totalDistance, totalDuration)))"

text \<open>
  Line 198: \<^verbatim>\<open>for (let i = 0; i < points.length - 1; i++)\<close>. The bound is computed on
  integers: for the empty list it is \<open>-1\<close>.
\<close>

function generateRoute_for ::
  "Arith \<Rightarrow> Turf \<Rightarrow> Place list \<Rightarrow> string \<Rightarrow> nat \<Rightarrow> coord list \<times> number \<times> number
     \<Rightarrow> js_error + coord list \<times> number \<times> number" where
  "generateRoute_for fp turf points mode i vars =
     (if int i < int (length points) - 1 then
        (case generateRoute_body fp turf points mode i vars of
           Inl e \<Rightarrow> Inl e
         | Inr vars' \<Rightarrow> generateRoute_for fp turf points mode (i + 1) vars')
      else Inr vars)"
  by pat_completeness auto
termination
  by (relation "measure (\<lambda>(fp, turf, points, mode, i, vars). length points - i)") auto

record Route =
  duration :: number
  distance :: number
  steps :: "RouteStep list"
  coordinates :: "coord list"

text \<open>
  The function is \<^verbatim>\<open>async\<close>: \<open>Inl e\<close> is the promise rejected with \<open>e\<close>, \<open>Inr r\<close> the
  promise fulfilled with the route \<open>r\<close>. The array \<^verbatim>\<open>steps\<close> of line 193 is what line
  257 returns; no iteration of the loop can reach it.
\<close>

definition generateRoute :: "Arith \<Rightarrow> Turf \<Rightarrow> Place list \<Rightarrow> string \<Rightarrow> js_error + Route" where
  "generateRoute fp turf points mode =
     (let coordinates = [];
          steps = [];
          totalDistance = Num 0;
          totalDuration = Num 0
      in case generateRoute_for fp turf points mode 0 (coordinates, totalDistance, totalDuration) of
           Inl e \<Rightarrow> Inl e
         | Inr vars \<Rightarrow>
             (\<lambda>(coordinates, totalDistance, totalDuration).
                Inr \<lparr> duration = Math_round totalDuration,
                      distance = toFixed1 totalDistance,
                      steps = steps,
                      coordinates = coordinates \<rparr>) vars)"

subsection \<open>The greedy reordering of optimizeRoute (lines 109-139)\<close>

text \<open>
  Lines 122-132: the inner \<^verbatim>\<open>for\<close> loop, from index \<open>i\<close>, on the pair
  \<^verbatim>\<open>(closestIdx, closestDistance)\<close>. The test of line 128 is false when one of the two
  distances is \<^verbatim>\<open>NaN\<close>.
\<close>

function optimizeRoute_for ::
  "Arith \<Rightarrow> Location \<Rightarrow> Place list \<Rightarrow> nat \<Rightarrow> nat \<times> number \<Rightarrow> nat \<times> number" where
  "optimizeRoute_for fp currentPoint remainingPlaces i closest =
     (if i < length remainingPlaces then
        (case closest of (closestIdx, closestDistance) \<Rightarrow>
           let distance = calculateDistance fp
                 (lat currentPoint) (lon currentPoint)
                 (lat (location (remainingPlaces ! i))) (lon (location (remainingPlaces ! i)))
           in optimizeRoute_for fp currentPoint remainingPlaces (i + 1)
                (if js_less distance closestDistance then (i, distance)
                 else (closestIdx, closestDistance)))
      else closest)"
  by pat_completeness auto
termination
  by (relation "measure (\<lambda>(fp, currentPoint, remainingPlaces, i, closest).
        length remainingPlaces - i)")
    auto

declare optimizeRoute_for.simps [simp del]

text \<open>
  Lines 116-132: the search for the closest place, for a non-empty \<^verbatim>\<open>remainingPlaces\<close>
  (the guard of the \<^verbatim>\<open>while\<close> loop).
\<close>

definition optimizeRoute_closest :: "Arith \<Rightarrow> Location \<Rightarrow> Place list \<Rightarrow> nat \<times> number" where
  "optimizeRoute_closest fp currentPoint remainingPlaces =
     (let closestIdx = 0;
          closestDistance = calculateDistance fp
            (lat currentPoint) (lon currentPoint)
            (lat (location (remainingPlaces ! 0))) (lon (location (remainingPlaces ! 0)))
      in optimizeRoute_for fp currentPoint remainingPlaces 1 (closestIdx, closestDistance))"

text \<open>
  Lines 114-139: the \<^verbatim>\<open>while\<close> loop. Nothing in its text bounds the number of
  iterations, so it is a partial function: \<open>None\<close> is a run that does not end,
  \<open>Some (Inl e)\<close> a run that raises \<open>e\<close> (\<^verbatim>\<open>nextPlace.location\<close> on \<^verbatim>\<open>undefined\<close>),
  \<open>Some (Inr orderedPlaces)\<close> a run that leaves the loop.
\<close>

partial_function (option) optimizeRoute_while ::
  "Arith \<Rightarrow> Location \<Rightarrow> Place list \<Rightarrow> Place list \<Rightarrow> (js_error + Place list) option" where
  "optimizeRoute_while fp currentPoint remainingPlaces orderedPlaces =
     (if length remainingPlaces > 0 then
        (let closestIdx = fst (optimizeRoute_closest fp currentPoint remainingPlaces)
         in case js_index remainingPlaces closestIdx of
              None \<Rightarrow> Some (Inl TypeError)
            | Some nextPlace \<Rightarrow>
                optimizeRoute_while fp
                  \<lparr> lat = lat (location nextPlace), lon = lon (location nextPlace) \<rparr>
                  (js_filter (\<lambda>_ idx. idx \<noteq> closestIdx) remainingPlaces)
                  (orderedPlaces @ [nextPlace]))
      else Some (Inr orderedPlaces))"

text \<open>
  Lines 109-139: the ordering computed from \<^verbatim>\<open>userLocation\<close> and \<^verbatim>\<open>selectedPlaces\<close>,
  the value handed to \<^verbatim>\<open>setSelectedPlaces\<close> at line 141. The guard of line 99, which
  returns at once when there is no location or no selected place, and the call of
  \<^verbatim>\<open>generateRoute\<close> at line 149 are not part of it.
\<close>

definition optimizeRoute_order ::
  "Arith \<Rightarrow> coord \<Rightarrow> Place list \<Rightarrow> (js_error + Place list) option" where
  "optimizeRoute_order fp userLocation selectedPlaces =
     (let startPoint = \<lparr> lat = fst userLocation, lon = snd userLocation \<rparr>;
          remainingPlaces = selectedPlaces;
          orderedPlaces = [];
          currentPoint = startPoint
      in optimizeRoute_while fp currentPoint remainingPlaces orderedPlaces)"

subsection \<open>Stand-ins for the arithmetic and the library, and sample data\<close>

text \<open>
  To run the embedding on concrete inputs the arithmetic and the library need values.
  \<open>exact_fp\<close> is the arithmetic without rounding error. \<open>atan2_exact\<close> is the angle
  \<^verbatim>\<open>Math.atan2(y, x)\<close> approximates.
\<close>

definition atan2_exact :: "real \<Rightarrow> real \<Rightarrow> real" where
  "atan2_exact y x =
     (if 0 < x then arctan (y / x)
      else if x < 0 then (if 0 \<le> y then arctan (y / x) + pi else arctan (y / x) - pi)
      else if 0 < y then pi / 2
      else if y < 0 then - (pi / 2)
      else 0)"

definition exact_fp :: Arith where
  "exact_fp =
     \<lparr> round_add = (\<lambda>x y. Num (x + y)),
       round_sub = (\<lambda>x y. Num (x - y)),
       round_mul = (\<lambda>x y. Num (x * y)),
       round_div = (\<lambda>x y. if y = 0 then NaN else Num (x / y)),
       approx_sin = (\<lambda>x. Num (sin x)),
       approx_cos = (\<lambda>x. Num (cos x)),
       round_sqrt = (\<lambda>x. if x < 0 then NaN else Num (sqrt x)),
       approx_atan2 = (\<lambda>y x. Num (atan2_exact y x)),
       Math_PI = Num pi \<rparr>"

text \<open>
  \<open>upward_fp\<close> differs from it in the addition, whose result is too large by
  \<open>1 / 2 ^ 52\<close>, the distance from 1 to the next double: a caricature of a sum that is
  rounded upwards.
\<close>

definition upward_fp :: Arith where
  "upward_fp = exact_fp \<lparr> round_add := (\<lambda>x y. Num (x + y + 1 / 2 ^ 52)) \<rparr>"

text \<open>
  \<open>haversine_turf fp\<close> stands for the library: the length of a line of two points is
  their distance as \<^verbatim>\<open>calculateDistance\<close> computes it (coordinates are longitude first);
  the point at distance \<open>d\<close> along the line is the first end point for \<open>d \<le> 0\<close>, the
  second from the length of the line on, and interpolated linearly in between.
\<close>

definition haversine_turf :: "Arith \<Rightarrow> Turf" where
  "haversine_turf fp =
     \<lparr> turf_length = (\<lambda>line. case line of
          [a, b] \<Rightarrow> calculateDistance fp (snd a) (fst a) (snd b) (fst b)
        | _ \<Rightarrow> Num 0),
       turf_along = (\<lambda>line d. case line of
          [a, b] \<Rightarrow>
            (let len = calculateDistance fp (snd a) (fst a) (snd b) (fst b);
                 t = js_div fp d len
             in if js_le d (Num 0) then a
                else if js_le len d then b
                else (js_add fp (fst a) (js_mul fp t (js_sub fp (fst b) (fst a))),
                      js_add fp (snd a) (js_mul fp t (js_sub fp (snd b) (snd a)))))
        | _ \<Rightarrow> (NaN, NaN)) \<rparr>"

text \<open>
  The first point built at lines 81 and 145 for \<^verbatim>\<open>userLocation = [0, 0]\<close>, and two
  places on the equator, a quarter and a half of the way round; the second is the
  antipode of the first point.
\<close>

definition user_place :: Place where
  "user_place =
     \<lparr> id = ''user'', name = ''Your Location'', location = \<lparr> lat = Num 0, lon = Num 0 \<rparr> \<rparr>"

definition quarter_place :: Place where
  "quarter_place = \<lparr> id = ''q'', name = ''Quarter'', location = \<lparr> lat = Num 0, lon = Num 90 \<rparr> \<rparr>"

definition half_place :: Place where
  "half_place = \<lparr> id = ''h'', name = ''Half'', location = \<lparr> lat = Num 0, lon = Num 180 \<rparr> \<rparr>"

text \<open>
  The scenario of section 8 of the specification: an origin at (37.0, -122.0) and the
  stops A at (37.01, -122.0) and B at (37.0, -122.02).
\<close>

definition scenario_origin :: Place where
  "scenario_origin =
     \<lparr> id = ''user'', name = ''Your Location'',
       location = \<lparr> lat = Num 37, lon = Num (-122) \<rparr> \<rparr>"

definition scenario_A :: Place where
  "scenario_A = \<lparr> id = ''A'', name = ''A'', location = \<lparr> lat = Num 37.01, lon = Num (-122) \<rparr> \<rparr>"

definition scenario_B :: Place where
  "scenario_B = \<lparr> id = ''B'', name = ''B'', location = \<lparr> lat = Num 37, lon = Num (-122.02) \<rparr> \<rparr>"

section \<open>Properties\<close>

subsection \<open>The search for the closest place\<close>

lemma optimizeRoute_for_done:
  "\<not> i < length pool \<Longrightarrow> optimizeRoute_for fp cur pool i closest = closest"
  by (subst optimizeRoute_for.simps) simp

lemma optimizeRoute_for_step:
  "i < length pool \<Longrightarrow>
   optimizeRoute_for fp cur pool i (k, dk) =
   optimizeRoute_for fp cur pool (Suc i)
     (if js_less (calculateDistance fp (lat cur) (lon cur)
                    (lat (location (pool ! i))) (lon (location (pool ! i)))) dk
      then (i, calculateDistance fp (lat cur) (lon cur)
                 (lat (location (pool ! i))) (lon (location (pool ! i))))
      else (k, dk))"
  by (subst optimizeRoute_for.simps) (simp add: Let_def)

text \<open>The index found lies below the length of the pool, whatever the distances are.\<close>

lemma optimizeRoute_for_bound:
  assumes "k < i" "i \<le> length pool"
  shows "fst (optimizeRoute_for fp cur pool i (k, dk)) < length pool"
  using assms
proof (induction "length pool - i" arbitrary: i k dk)
  case 0
  then show ?case by (simp add: optimizeRoute_for_done)
next
  case (Suc n)
  then have lt: "i < length pool" by simp
  have n: "n = length pool - Suc i" using Suc.hyps(2) by simp
  have "fst (optimizeRoute_for fp cur pool (Suc i) (k', dk')) < length pool"
    if "k' < Suc i" for k' dk'
    using Suc.hyps(1)[OF n that] lt by simp
  then show ?case
    using lt Suc.prems(1) by (simp add: optimizeRoute_for_step)
qed

lemma optimizeRoute_closest_bound:
  assumes "pool \<noteq> []"
  shows "fst (optimizeRoute_closest fp cur pool) < length pool"
  using assms by (simp add: optimizeRoute_closest_def optimizeRoute_for_bound Suc_le_eq)

text \<open>A closest distance that is \<^verbatim>\<open>NaN\<close> is never replaced: line 128 is false.\<close>

lemma optimizeRoute_for_NaN:
  "optimizeRoute_for fp cur pool i (k, NaN) = (k, NaN)"
proof (induction "length pool - i" arbitrary: i)
  case 0
  then show ?case by (simp add: optimizeRoute_for_done)
next
  case (Suc n)
  then have lt: "i < length pool" and n: "n = length pool - Suc i" by simp_all
  show ?case
    using Suc.hyps(1)[OF n] lt by (simp add: optimizeRoute_for_step)
qed

subsection \<open>Removing one index\<close>

lemma nths_all_but_one:
  "nths xs {i. i \<noteq> k} = take k xs @ drop (Suc k) xs"
proof (induction xs arbitrary: k)
  case Nil
  then show ?case by simp
next
  case (Cons x xs)
  show ?case
  proof (cases k)
    case 0
    then show ?thesis by (simp add: nths_Cons nths_all)
  next
    case (Suc k')
    then show ?thesis using Cons.IH[of k'] by (simp add: nths_Cons)
  qed
qed

lemma js_filter_remove:
  "js_filter (\<lambda>_ idx. idx \<noteq> k) xs = take k xs @ drop (Suc k) xs"
proof -
  have "js_filter (\<lambda>_ idx. idx \<noteq> k) xs = nths xs {i. i \<noteq> k}"
    by (simp add: js_filter_def nths_def case_prod_unfold)
  then show ?thesis by (simp add: nths_all_but_one)
qed

lemma mset_remove_nth:
  "k < length xs \<Longrightarrow> add_mset (xs ! k) (mset (take k xs @ drop (Suc k) xs)) = mset xs"
  by (metis id_take_nth_drop mset.simps(2) mset_append union_mset_add_mset_right)

subsection \<open>The while loop\<close>

lemma optimizeRoute_while_step:
  assumes "pool \<noteq> []"
  shows "optimizeRoute_while fp cur pool acc =
     (let k = fst (optimizeRoute_closest fp cur pool)
      in optimizeRoute_while fp
           \<lparr> lat = lat (location (pool ! k)), lon = lon (location (pool ! k)) \<rparr>
           (take k pool @ drop (Suc k) pool) (acc @ [pool ! k]))"
proof -
  have "fst (optimizeRoute_closest fp cur pool) < length pool"
    by (rule optimizeRoute_closest_bound[OF assms])
  with assms show ?thesis
    by (subst optimizeRoute_while.simps) (simp add: Let_def js_index_def js_filter_remove)
qed

lemma optimizeRoute_while_result:
  "\<exists>out. optimizeRoute_while fp cur pool acc = Some (Inr (acc @ out)) \<and> mset out = mset pool"
proof (induction "length pool" arbitrary: cur pool acc)
  case 0
  then show ?case
    by (subst optimizeRoute_while.simps) simp
next
  case (Suc n)
  then have ne: "pool \<noteq> []" by auto
  define k where "k = fst (optimizeRoute_closest fp cur pool)"
  define p where "p = pool ! k"
  define pool' where "pool' = take k pool @ drop (Suc k) pool"
  have k: "k < length pool"
    unfolding k_def by (rule optimizeRoute_closest_bound[OF ne])
  have len: "n = length pool'"
    using Suc.hyps(2) k by (simp add: pool'_def)
  obtain out' where
    run: "optimizeRoute_while fp \<lparr> lat = lat (location p), lon = lon (location p) \<rparr> pool'
            (acc @ [p]) = Some (Inr ((acc @ [p]) @ out'))"
    and ms: "mset out' = mset pool'"
    using Suc.hyps(1)[OF len] by blast
  have "optimizeRoute_while fp cur pool acc = Some (Inr (acc @ p # out'))"
    using run by (simp add: optimizeRoute_while_step[OF ne] k_def[symmetric] p_def pool'_def)
  moreover have "mset (p # out') = mset pool"
    using ms mset_remove_nth[OF k] by (simp add: p_def pool'_def)
  ultimately show ?case by blast
qed

text \<open>
  When the distance from the current point to the first place of the pool is \<^verbatim>\<open>NaN\<close>,
  that place is taken, whatever the other places are.
\<close>

lemma optimizeRoute_closest_NaN:
  assumes "calculateDistance fp (lat cur) (lon cur)
             (lat (location (pool ! 0))) (lon (location (pool ! 0))) = NaN"
  shows "optimizeRoute_closest fp cur pool = (0, NaN)"
  using assms by (simp add: optimizeRoute_closest_def optimizeRoute_for_NaN)

subsection \<open>Evaluation on the sample data\<close>

lemma calculateDistance_same:
  "calculateDistance exact_fp (Num 0) (Num 0) (Num 0) (Num 0) = Num 0"
  by (simp add: calculateDistance_def exact_fp_def atan2_exact_def js_add_def js_sub_def
      js_mul_def js_div_def Math_sin_def Math_cos_def Math_sqrt_def Math_atan2_def)

lemma sin_quarter_sq: "sin (pi / 4) * sin (pi / 4) = 1 / 2"
  by (simp add: sin_45)

lemma calculateDistance_half:
  "calculateDistance exact_fp (Num 0) (Num 0) (Num 0) (Num 180) = Num (6371 * pi)"
  by (simp add: calculateDistance_def exact_fp_def atan2_exact_def js_add_def js_sub_def
      js_mul_def js_div_def Math_sin_def Math_cos_def Math_sqrt_def Math_atan2_def)

lemma calculateDistance_quarter:
  "calculateDistance exact_fp (Num 0) (Num 0) (Num 0) (Num 90) = Num (6371 * pi / 2)"
  by (simp add: calculateDistance_def exact_fp_def atan2_exact_def js_add_def js_sub_def
      js_mul_def js_div_def Math_sin_def Math_cos_def Math_sqrt_def Math_atan2_def
      Let_def sin_quarter_sq real_sqrt_divide arctan_one)

lemma calculateDistance_quarter_half:
  "calculateDistance exact_fp (Num 0) (Num 90) (Num 0) (Num 180) = Num (6371 * pi / 2)"
  by (simp add: calculateDistance_def exact_fp_def atan2_exact_def js_add_def js_sub_def
      js_mul_def js_div_def Math_sin_def Math_cos_def Math_sqrt_def Math_atan2_def
      Let_def sin_quarter_sq real_sqrt_divide arctan_one)

lemma calculateDistance_half_upward:
  "calculateDistance upward_fp (Num 0) (Num 0) (Num 0) (Num 180) = NaN"
  by (simp add: calculateDistance_def upward_fp_def exact_fp_def atan2_exact_def js_add_def
      js_sub_def js_mul_def js_div_def Math_sin_def Math_cos_def Math_sqrt_def Math_atan2_def)

lemma calculateDistance_quarter_upward:
  "calculateDistance upward_fp (Num 0) (Num 0) (Num 0) (Num 90) \<noteq> NaN"
  by (simp add: calculateDistance_def upward_fp_def exact_fp_def atan2_exact_def js_add_def
      js_sub_def js_mul_def js_div_def Math_sin_def Math_cos_def Math_sqrt_def Math_atan2_def
      Let_def sin_quarter_sq)

lemma optimizeRoute_closest_sample:
  "optimizeRoute_closest exact_fp \<lparr> lat = Num 0, lon = Num 0 \<rparr> [half_place, quarter_place] =
     (1, Num (6371 * pi / 2))"
  by (simp add: optimizeRoute_closest_def optimizeRoute_for.simps half_place_def
      quarter_place_def calculateDistance_half calculateDistance_quarter)

lemma optimizeRoute_while_sample:
  "optimizeRoute_while exact_fp \<lparr> lat = Num 0, lon = Num 0 \<rparr> [half_place, quarter_place] [] =
     Some (Inr [quarter_place, half_place])"
  by (simp add: optimizeRoute_while.simps optimizeRoute_closest_def
      optimizeRoute_for.simps js_index_def js_filter_def half_place_def quarter_place_def
      calculateDistance_half calculateDistance_quarter calculateDistance_quarter_half)

lemma optimizeRoute_order_sample:
  "optimizeRoute_order exact_fp (Num 0, Num 0) [half_place, quarter_place] =
     Some (Inr [quarter_place, half_place])"
  by (simp add: optimizeRoute_order_def optimizeRoute_while_sample)

subsection \<open>The loop of generateRoute\<close>

lemma generateRoute_body_raises:
  "generateRoute_body fp turf points mode i vars = Inl TypeError"
  by (simp add: generateRoute_body_def Let_def split: prod.splits)

lemma generateRoute_for_raises:
  assumes "2 \<le> length points"
  shows "generateRoute_for fp turf points mode 0 vars = Inl TypeError"
  using assms by (simp add: generateRoute_body_raises)

lemma generateRoute_raises:
  assumes "2 \<le> length points"
  shows "generateRoute fp turf points mode = Inl TypeError"
  by (simp add: generateRoute_def generateRoute_for_raises[OF assms] del: generateRoute_for.simps)

lemma generateRoute_for_short:
  assumes "length points < 2"
  shows "generateRoute_for fp turf points mode 0 vars = Inr vars"
  using assms by simp

lemma generateRoute_short:
  assumes "length points < 2"
  shows "generateRoute fp turf points mode =
           Inr \<lparr> duration = Num 0, distance = Num 0, steps = [], coordinates = [] \<rparr>"
  by (simp add: generateRoute_def generateRoute_for_short[OF assms]
      del: generateRoute_for.simps)

lemma generateRoute_samples_NaN:
  "generateRoute_samples fp turf line lineDistance NaN j segmentCoordinates = segmentCoordinates"
  by (subst generateRoute_samples.simps) simp

text \<open>A line of length 0 is sampled six times, at its only point.\<close>

lemma js_div_exact: "y \<noteq> 0 \<Longrightarrow> js_div exact_fp (Num x) (Num y) = Num (x / y)"
  by (simp add: js_div_def exact_fp_def)

lemma js_mul_exact: "js_mul exact_fp (Num x) (Num y) = Num (x * y)"
  by (simp add: js_mul_def exact_fp_def)

lemma haversine_turf_point:
  "turf_length (haversine_turf exact_fp) [(Num 0, Num 0), (Num 0, Num 0)] = Num 0"
  "turf_along (haversine_turf exact_fp) [(Num 0, Num 0), (Num 0, Num 0)] (Num 0) = (Num 0, Num 0)"
  by (simp_all add: haversine_turf_def calculateDistance_same Let_def)

lemma generateRoute_segment_sample:
  "generateRoute_segment exact_fp (haversine_turf exact_fp) (Num 0, Num 0) (Num 0, Num 0) =
     (Num 5, [(Num 0, Num 0), (Num 0, Num 0), (Num 0, Num 0),
              (Num 0, Num 0), (Num 0, Num 0), (Num 0, Num 0)])"
  by (simp add: generateRoute_segment_def generateRoute_samples.simps haversine_turf_point
      js_div_exact js_mul_exact Let_def)

subsection \<open>The ordering is a permutation\<close>

text \<open>
  Claim C4. For every origin and every list of selected places, and whatever the
  arithmetic returns, the greedy reordering of \<^verbatim>\<open>optimizeRoute\<close> ends without an
  exception, and its result is a permutation of the input: the same multiset of places,
  hence the same multiset of identifiers, the same length, and no repeated identifier
  unless the input had one.
\<close>

theorem optimizeRoute_order_permutation:
  "\<exists>ordered. optimizeRoute_order fp userLocation selectedPlaces = Some (Inr ordered) \<and>
     mset ordered = mset selectedPlaces \<and>
     mset (map id ordered) = mset (map id selectedPlaces) \<and>
     length ordered = length selectedPlaces \<and>
     (distinct (map id selectedPlaces) \<longrightarrow> distinct (map id ordered))"
proof -
  obtain out where
    run: "optimizeRoute_order fp userLocation selectedPlaces = Some (Inr out)"
    and ms: "mset out = mset selectedPlaces"
    using optimizeRoute_while_result[of fp "\<lparr> lat = fst userLocation, lon = snd userLocation \<rparr>"
        selectedPlaces "[]"]
    by (auto simp: optimizeRoute_order_def)
  from ms have ids: "mset (map id out) = mset (map id selectedPlaces)"
    by (metis mset_map)
  from ms have "length out = length selectedPlaces"
    by (rule mset_eq_length)
  moreover from ids have "distinct (map id selectedPlaces) \<longrightarrow> distinct (map id out)"
    by (metis mset_eq_imp_distinct_iff)
  ultimately show ?thesis using run ms ids by blast
qed

theorem optimizeRoute_order_permutation_witness:
  "optimizeRoute_order exact_fp (Num 0, Num 0) [half_place, quarter_place] =
     Some (Inr [quarter_place, half_place]) \<and>
   mset (map id [quarter_place, half_place]) = mset (map id [half_place, quarter_place]) \<and>
   distinct (map id [half_place, quarter_place]) \<and>
   distinct (map id [quarter_place, half_place])"
proof -
  have d: "distinct (map id [half_place, quarter_place])"
    by (simp add: half_place_def quarter_place_def)
  obtain ordered where
    "optimizeRoute_order exact_fp (Num 0, Num 0) [half_place, quarter_place] = Some (Inr ordered)"
    "mset (map id ordered) = mset (map id [half_place, quarter_place])"
    "distinct (map id [half_place, quarter_place]) \<longrightarrow> distinct (map id ordered)"
    using optimizeRoute_order_permutation[of exact_fp "(Num 0, Num 0)"
        "[half_place, quarter_place]"] by blast
  with d show ?thesis
    by (simp add: optimizeRoute_order_sample)
qed

subsection \<open>A place at distance NaN is taken first\<close>

text \<open>
  Claim C5 asks that every place taken be at minimum distance from the current point.
  What the loop does when \<^verbatim>\<open>calculateDistance\<close> returns \<^verbatim>\<open>NaN\<close> for the first selected
  place, as the doubles make it do for some antipodes of the origin (the sum \<^verbatim>\<open>a\<close> of
  line 266 is rounded above 1 and \<^verbatim>\<open>Math.sqrt(1-a)\<close> is \<^verbatim>\<open>NaN\<close>): the comparison of
  line 128 is false for every other place, so this place is output first, however near
  the others are.
\<close>

theorem optimizeRoute_order_NaN_first:
  assumes "calculateDistance fp (fst userLocation) (snd userLocation)
             (lat (location antipode)) (lon (location antipode)) = NaN"
  shows "\<exists>rest. optimizeRoute_order fp userLocation (antipode # others) =
                   Some (Inr (antipode # rest)) \<and>
                 mset rest = mset others"
proof -
  let ?start = "\<lparr> lat = fst userLocation, lon = snd userLocation \<rparr>"
  have "optimizeRoute_closest fp ?start (antipode # others) = (0, NaN)"
    using assms by (intro optimizeRoute_closest_NaN) simp
  then have step: "optimizeRoute_while fp ?start (antipode # others) [] =
      optimizeRoute_while fp \<lparr> lat = lat (location antipode), lon = lon (location antipode) \<rparr>
        others [antipode]"
    by (simp add: optimizeRoute_while_step)
  obtain rest where
    "optimizeRoute_while fp \<lparr> lat = lat (location antipode), lon = lon (location antipode) \<rparr>
        others [antipode] = Some (Inr ([antipode] @ rest))"
    and "mset rest = mset others"
    using optimizeRoute_while_result by blast
  with step show ?thesis
    by (auto simp: optimizeRoute_order_def)
qed

theorem optimizeRoute_order_NaN_first_witness:
  "calculateDistance upward_fp (fst (Num 0, Num 0)) (snd (Num 0, Num 0))
     (lat (location half_place)) (lon (location half_place)) = NaN \<and>
   calculateDistance upward_fp (Num 0) (Num 0)
     (lat (location quarter_place)) (lon (location quarter_place)) \<noteq> NaN \<and>
   optimizeRoute_order upward_fp (Num 0, Num 0) [half_place, quarter_place] =
     Some (Inr [half_place, quarter_place])"
proof -
  have nan: "calculateDistance upward_fp (fst (Num 0, Num 0)) (snd (Num 0, Num 0))
     (lat (location half_place)) (lon (location half_place)) = NaN"
    by (simp add: half_place_def calculateDistance_half_upward)
  have fin: "calculateDistance upward_fp (Num 0) (Num 0)
     (lat (location quarter_place)) (lon (location quarter_place)) \<noteq> NaN"
    by (simp add: quarter_place_def calculateDistance_quarter_upward)
  obtain rest where
    "optimizeRoute_order upward_fp (Num 0, Num 0) (half_place # [quarter_place]) =
       Some (Inr (half_place # rest))"
    and "mset rest = mset [quarter_place]"
    using optimizeRoute_order_NaN_first[OF nan, of "[quarter_place]"] by blast
  moreover from this(2) have "rest = [quarter_place]"
    by simp
  ultimately show ?thesis using nan fin by simp
qed

subsection \<open>The loop ends\<close>

text \<open>
  Claim C10. From every current point, pool and accumulated sequence, and whatever the
  arithmetic returns, the \<^verbatim>\<open>while\<close> loop of \<^verbatim>\<open>optimizeRoute\<close> ends, and without an
  exception. While the pool is not empty the index \<^verbatim>\<open>closestIdx\<close> is within the pool, so
  \<^verbatim>\<open>remainingPlaces[closestIdx]\<close> is a place, and the filter of line 138 removes exactly
  one element: the pool of the next iteration is one shorter.
\<close>

theorem optimizeRoute_while_terminates:
  "(\<exists>ordered. optimizeRoute_while fp currentPoint remainingPlaces orderedPlaces =
      Some (Inr ordered)) \<and>
   (0 < length remainingPlaces \<longrightarrow>
      (let closestIdx = fst (optimizeRoute_closest fp currentPoint remainingPlaces)
       in closestIdx < length remainingPlaces \<and>
          js_index remainingPlaces closestIdx = Some (remainingPlaces ! closestIdx) \<and>
          Suc (length (js_filter (\<lambda>_ idx. idx \<noteq> closestIdx) remainingPlaces)) =
            length remainingPlaces))"
proof (intro conjI impI)
  show "\<exists>ordered. optimizeRoute_while fp currentPoint remainingPlaces orderedPlaces =
      Some (Inr ordered)"
    using optimizeRoute_while_result[of fp currentPoint remainingPlaces orderedPlaces] by blast
next
  assume "0 < length remainingPlaces"
  then have "remainingPlaces \<noteq> []" by simp
  then have "fst (optimizeRoute_closest fp currentPoint remainingPlaces) < length remainingPlaces"
    by (rule optimizeRoute_closest_bound)
  then show "let closestIdx = fst (optimizeRoute_closest fp currentPoint remainingPlaces)
       in closestIdx < length remainingPlaces \<and>
          js_index remainingPlaces closestIdx = Some (remainingPlaces ! closestIdx) \<and>
          Suc (length (js_filter (\<lambda>_ idx. idx \<noteq> closestIdx) remainingPlaces)) =
            length remainingPlaces"
    by (simp add: Let_def js_index_def js_filter_remove)
qed

theorem optimizeRoute_while_terminates_witness:
  "0 < length [half_place, quarter_place] \<and>
   optimizeRoute_while exact_fp \<lparr> lat = Num 0, lon = Num 0 \<rparr> [half_place, quarter_place] [] =
     Some (Inr [quarter_place, half_place]) \<and>
   fst (optimizeRoute_closest exact_fp \<lparr> lat = Num 0, lon = Num 0 \<rparr>
          [half_place, quarter_place]) = 1 \<and>
   js_index [half_place, quarter_place] 1 = Some quarter_place \<and>
   Suc (length (js_filter (\<lambda>_ idx. idx \<noteq> 1) [half_place, quarter_place])) = 2"
  using optimizeRoute_while_terminates[of exact_fp "\<lparr> lat = Num 0, lon = Num 0 \<rparr>"
      "[half_place, quarter_place]" "[]"]
  by (simp add: optimizeRoute_while_sample optimizeRoute_closest_sample)

subsection \<open>Routes of two or more points\<close>

text \<open>
  Claim C1 asks, for \<open>n \<ge> 2\<close> points, for a route with \<open>n - 1\<close> steps. What
  \<^verbatim>\<open>generateRoute\<close> does on such an input: the first iteration reaches line 243, where
  \<^verbatim>\<open>steps\<close> is the number of line 225, and the promise is rejected with a
  \<^verbatim>\<open>TypeError\<close>. No route is returned, so none with \<open>n - 1\<close> steps.
\<close>

theorem generateRoute_steps_missing:
  assumes "2 \<le> length points"
  shows "generateRoute fp turf points mode = Inl TypeError \<and>
         \<not> (\<exists>r. generateRoute fp turf points mode = Inr r \<and>
                length (steps r) = length points - 1)"
  by (simp add: generateRoute_raises[OF assms])

theorem generateRoute_steps_missing_witness:
  "2 \<le> length [scenario_origin, scenario_A] \<and>
   generateRoute exact_fp (haversine_turf exact_fp) [scenario_origin, scenario_A] ''driving-car'' =
     Inl TypeError"
proof -
  have two: "2 \<le> length [scenario_origin, scenario_A]" by simp
  show ?thesis
    using generateRoute_steps_missing[OF two, of exact_fp "haversine_turf exact_fp"
        "''driving-car''"]
    by simp
qed

text \<open>
  Claim C2 asks that \<^verbatim>\<open>generateRoute\<close> never throws. On the origin and one stop of the
  scenario it does.
\<close>

theorem generateRoute_rejects_two_points:
  "generateRoute exact_fp (haversine_turf exact_fp) [scenario_origin, scenario_A]
     ''cycling-regular'' = Inl TypeError"
  by (simp add: generateRoute_raises)

text \<open>
  Claim C6 describes the coordinates of the route returned for \<open>n \<ge> 2\<close> points. On the
  scenario of the specification (origin, A, B, walking) no route is returned: the call is
  rejected in the first iteration, after the points of the first leg were appended to the
  local array and before any later leg is looked at.
\<close>

theorem generateRoute_rejects_scenario:
  "generateRoute exact_fp (haversine_turf exact_fp) [scenario_origin, scenario_A, scenario_B]
     ''foot-walking'' = Inl TypeError"
  by (simp add: generateRoute_raises)

text \<open>
  Claim C9 compares the total duration and the total distance of the routes returned for
  the same points by car and on foot. For every sequence of two or more points, whatever
  the arithmetic and the library, neither call returns a route: both are rejected with
  the \<^verbatim>\<open>TypeError\<close> of line 243, so there are no totals to compare.
\<close>

theorem generateRoute_rejects_both_modes:
  "generateRoute fp turf (origin # stop # stops) ''driving-car'' = Inl TypeError \<and>
   generateRoute fp turf (origin # stop # stops) ''foot-walking'' = Inl TypeError"
  by (simp add: generateRoute_raises)

subsection \<open>Routes of fewer than two points\<close>

text \<open>
  Claim C7. On an empty sequence of points and on a sequence of one point,
  \<^verbatim>\<open>generateRoute\<close> does not fail: it returns the route with no step, total distance 0,
  total duration 0 and no coordinate.
\<close>

theorem generateRoute_fewer_than_two:
  assumes "length points < 2"
  shows "generateRoute fp turf points mode =
           Inr \<lparr> duration = Num 0, distance = Num 0, steps = [], coordinates = [] \<rparr>"
  using assms by (rule generateRoute_short)

theorem generateRoute_fewer_than_two_witness:
  "length [user_place] < 2 \<and> length ([] :: Place list) < 2 \<and>
   generateRoute exact_fp (haversine_turf exact_fp) [user_place] ''driving-car'' =
     Inr \<lparr> duration = Num 0, distance = Num 0, steps = [], coordinates = [] \<rparr> \<and>
   generateRoute exact_fp (haversine_turf exact_fp) [] ''driving-car'' =
     Inr \<lparr> duration = Num 0, distance = Num 0, steps = [], coordinates = [] \<rparr>"
proof -
  have one: "length [user_place] < 2" and none: "length ([] :: Place list) < 2" by simp_all
  show ?thesis
    using generateRoute_fewer_than_two[OF one, of exact_fp "haversine_turf exact_fp"
        "''driving-car''"]
      generateRoute_fewer_than_two[OF none, of exact_fp "haversine_turf exact_fp"
        "''driving-car''"]
    by simp
qed

subsection \<open>The travel mode\<close>

text \<open>
  Claim C3 asks for an \<^verbatim>\<open>InvalidMode\<close> error on a mode outside the closed set. The
  code has no such error: on the mode \<^verbatim>\<open>hovercraft\<close> the speed is 40, a leg of 10 km
  takes the 15 minutes it takes by car, and a call of \<^verbatim>\<open>generateRoute\<close> with that mode
  returns a route.
\<close>

theorem generateRoute_speed_unknown_mode_counterexample:
  "generateRoute_speed ''hovercraft'' = Num 40 \<and>
   generateRoute_duration exact_fp (Num 10) ''hovercraft'' = Num 15 \<and>
   generateRoute_duration exact_fp (Num 10) ''hovercraft'' =
     generateRoute_duration exact_fp (Num 10) ''driving-car'' \<and>
   generateRoute exact_fp (haversine_turf exact_fp) [user_place] ''hovercraft'' =
     Inr \<lparr> duration = Num 0, distance = Num 0, steps = [], coordinates = [] \<rparr>"
  by (simp add: generateRoute_speed_def generateRoute_duration_def generateRoute_short
      exact_fp_def js_mul_def js_div_def)

text \<open>
  Claim C3, as amended. For every mode other than \<^verbatim>\<open>cycling-regular\<close> and
  \<^verbatim>\<open>foot-walking\<close>, so for every mode outside the closed set, the duration is computed
  with the driving speed of 40 km/h: a leg of \<open>d\<close> kilometres takes \<open>d / 40 * 60\<close>
  minutes, in the arithmetic of the numbers.
\<close>

theorem generateRoute_speed_default:
  assumes "mode \<noteq> ''cycling-regular''" "mode \<noteq> ''foot-walking''"
  shows "generateRoute_speed mode = Num 40 \<and>
         generateRoute_duration fp distance_km mode =
           js_mul fp (js_div fp distance_km (Num 40)) (Num 60)"
  using assms by (simp add: generateRoute_speed_def generateRoute_duration_def)

theorem generateRoute_speed_default_witness:
  "''hovercraft'' \<noteq> ''cycling-regular'' \<and> ''hovercraft'' \<noteq> ''foot-walking'' \<and>
   generateRoute_speed ''hovercraft'' = Num 40 \<and>
   generateRoute_duration exact_fp (Num 10) ''hovercraft'' = Num 15"
proof -
  have a: "''hovercraft'' \<noteq> ''cycling-regular''" and b: "''hovercraft'' \<noteq> ''foot-walking''"
    by simp_all
  show ?thesis
    using generateRoute_speed_default[OF a b, of exact_fp "Num 10"]
    by (simp add: exact_fp_def js_mul_def js_div_def)
qed

subsection \<open>The sampled points of a leg\<close>

text \<open>
  Claim C8 asks for at least 5 sampled points, the first at \<open>a\<close> and the last at \<open>b\<close>, for
  every pair of end points. What lines 223-232 do when the library returns \<^verbatim>\<open>NaN\<close> for
  the length of the line from \<open>a\<close> to \<open>b\<close>: \<^verbatim>\<open>Math.max(5, NaN)\<close> is \<^verbatim>\<open>NaN\<close>, the test
  \<^verbatim>\<open>j <= steps\<close> of line 228 is false at once, and no point is sampled.
\<close>

theorem generateRoute_segment_NaN:
  assumes "turf_length turf [a, b] = NaN"
  shows "generateRoute_segment fp turf a b = (NaN, [])"
  using assms
  by (simp add: generateRoute_segment_def js_div_def generateRoute_samples_NaN)

theorem generateRoute_segment_NaN_witness:
  "turf_length (haversine_turf upward_fp) [(Num 0, Num 0), (Num 180, Num 0)] = NaN \<and>
   generateRoute_segment upward_fp (haversine_turf upward_fp) (Num 0, Num 0) (Num 180, Num 0) =
     (NaN, [])"
proof -
  have nan: "turf_length (haversine_turf upward_fp) [(Num 0, Num 0), (Num 180, Num 0)] = NaN"
    by (simp add: haversine_turf_def calculateDistance_half_upward)
  show ?thesis
    using generateRoute_segment_NaN[OF nan, of upward_fp] nan by simp
qed

end
